theory Spec2Isabelle
  imports Main "HOL-Library.Multiset"
begin

section \<open>Chat helper functions (day\_1/Hello\_LLM.ipynb)\<close>

text \<open>
  The notebook's helper cell:
  \<^verbatim>\<open>
  def get_response(client: OpenAI, messages: str, model: str = "gpt-4.1-nano") -> str:
      return client.chat.completions.create(
          model=model,
          messages=messages
      )

  def system_prompt(message: str) -> dict:
      return {"role": "developer", "content": message}

  def assistant_prompt(message: str) -> dict:
      return {"role": "assistant", "content": message}

  def user_prompt(message: str) -> dict:
      return {"role": "user", "content": message}

  def pretty_print(message: str) -> str:
      display(Markdown(message.choices[0].message.content))
  \<close>
\<close>

subsection \<open>Message wrappers\<close>

text \<open>A Python dict with string keys and string values is a map from keys to values.\<close>

type_synonym message_dict = "string \<rightharpoonup> string"

definition system_prompt :: "string \<Rightarrow> message_dict" where
  "system_prompt message = [''role'' \<mapsto> ''developer'', ''content'' \<mapsto> message]"

definition assistant_prompt :: "string \<Rightarrow> message_dict" where
  "assistant_prompt message = [''role'' \<mapsto> ''assistant'', ''content'' \<mapsto> message]"

definition user_prompt :: "string \<Rightarrow> message_dict" where
  "user_prompt message = [''role'' \<mapsto> ''user'', ''content'' \<mapsto> message]"

subsection \<open>The hosted chat-completion API and \<open>get_response\<close>\<close>

text \<open>
  The keyword arguments of \<open>client.chat.completions.create\<close> form the request. The
  hosted service is outside the repository: a client is modelled by the function that
  answers a request (whatever the answer is, a completion or a raised API error, is a
  value of the type \<open>'r\<close>) together with the log of the requests it has been sent.
\<close>

record 'm request =
  model :: string
  messages :: "'m list"

record ('m, 'r) OpenAI =
  respond :: "'m request \<Rightarrow> 'r"
  sent :: "'m request list"

definition chat_completions_create ::
  "('m, 'r) OpenAI \<Rightarrow> 'm request \<Rightarrow> 'r \<times> ('m, 'r) OpenAI" where
  "chat_completions_create client req =
     (respond client req, client\<lparr>sent := sent client @ [req]\<rparr>)"

text \<open>
  The default value of the parameter \<open>model\<close> is taken when the caller passes none:
  the optional argument \<open>model_arg\<close> is \<open>None\<close> then. The parameter \<open>messages\<close>
  is \<open>msgs\<close> here, since the record's fields have the names of the keyword arguments.
\<close>

definition get_response ::
  "('m, 'r) OpenAI \<Rightarrow> 'm list \<Rightarrow> string option \<Rightarrow> 'r \<times> ('m, 'r) OpenAI" where
  "get_response client msgs model_arg =
     chat_completions_create client
       \<lparr>model = (case model_arg of None \<Rightarrow> ''gpt-4.1-nano'' | Some m \<Rightarrow> m),
        messages = msgs\<rparr>"

subsection \<open>\<open>pretty_print\<close>\<close>

text \<open>
  The parts of a chat-completion object that \<open>pretty_print\<close> reads. The content of
  a message is optional in the API's response type.
\<close>

record chat_message =
  content :: "string option"

record choice =
  message :: chat_message

record chat_completion =
  choices :: "choice list"

text \<open>
  Indexing an empty list raises \<open>IndexError\<close> in Python; \<open>Raised\<close> carries the name
  of an exception that the display library or the system raises. A function body that
  ends without \<open>return\<close> returns \<open>None\<close>.
\<close>

datatype py_error = IndexError | Raised string

datatype py_value = PyNone | PyStr string

text \<open>
  \<open>Markdown\<close> is IPython's class, a \<open>DisplayObject\<close>, whose constructor does not
  always keep the string it is given:
  \<^verbatim>\<open>
  if data is not None and isinstance(data, str):
      if data.startswith('http') and url is None:
          url = data
          filename = None
          data = None
      elif _safe_exists(data) and filename is None:
          url = None
          filename = data
          data = None
  ...
  self.reload()
  self._check_data()
  \<close>
  \<open>reload\<close> opens and reads the file, or downloads the URL with \<open>urlopen\<close>, and
  the text loaded replaces the data; either may raise. The network and the file system
  are outside the program: they are the environment, given by what a download returns
  (after decoding and the type check of \<open>_check_data\<close>), which paths exist and what
  reading a file returns.
\<close>

record environment =
  urlopen :: "string \<Rightarrow> py_error + string"
  path_exists :: "string \<Rightarrow> bool"
  read_file :: "string \<Rightarrow> py_error + string"

text \<open>The display object that a successful construction yields, with the data it holds.\<close>

datatype display_object = Markdown_object "string option"

definition startswith :: "string \<Rightarrow> string \<Rightarrow> bool" where
  "startswith s p \<longleftrightarrow> take (length p) s = p"

definition Markdown :: "environment \<Rightarrow> string option \<Rightarrow> py_error + display_object" where
  "Markdown env data =
     (case data of
        None \<Rightarrow> Inr (Markdown_object None)
      | Some s \<Rightarrow>
          if startswith s ''http'' then
            (case urlopen env s of
               Inl e \<Rightarrow> Inl e
             | Inr text \<Rightarrow> Inr (Markdown_object (Some text)))
          else if path_exists env s then
            (case read_file env s of
               Inl e \<Rightarrow> Inl e
             | Inr text \<Rightarrow> Inr (Markdown_object (Some text)))
          else Inr (Markdown_object (Some s)))"

text \<open>
  \<open>display\<close> is an effect on the notebook's output area: the output is the list of the
  objects displayed so far.
\<close>

definition display :: "display_object \<Rightarrow> display_object list \<Rightarrow> display_object list" where
  "display obj out = out @ [obj]"

text \<open>
  Python evaluates the argument \<open>Markdown(...)\<close> before it calls \<open>display\<close>: when
  the index or the constructor raises, nothing is displayed. The parameter of
  \<open>pretty_print\<close>, which the source calls \<open>message\<close>, is \<open>response\<close> here.
\<close>

definition pretty_print ::
  "environment \<Rightarrow> chat_completion \<Rightarrow> display_object list \<Rightarrow>
     (py_error + py_value) \<times> display_object list" where
  "pretty_print env response out =
     (case choices response of
        [] \<Rightarrow> (Inl IndexError, out)
      | c # _ \<Rightarrow>
         (case Markdown env (content (message c)) of
            Inl e \<Rightarrow> (Inl e, out)
          | Inr obj \<Rightarrow> (Inr PyNone, display obj out)))"


text \<open>
  An environment and responses for the examples: every download raises \<open>ValueError\<close>,
  and the only existing path is the current directory, which cannot be read as a file.
\<close>

definition example_env :: environment where
  "example_env =
     \<lparr>urlopen = (\<lambda>url. Inl (Raised ''ValueError'')),
      path_exists = (\<lambda>p. p = ''.''),
      read_file = (\<lambda>p. Inl (Raised ''IsADirectoryError''))\<rparr>"

definition response_with :: "string option \<Rightarrow> chat_completion" where
  "response_with data = \<lparr>choices = [\<lparr>message = \<lparr>content = data\<rparr>\<rparr>]\<rparr>"

section \<open>The dice roller of the MCP tool server (day\_8/mcp)\<close>

text \<open>
  The tool server's README names the file \<^verbatim>\<open>tool/dice_roller.py\<close> and documents the
  tool \<^verbatim>\<open>roll_dice\<close>:
  \<^verbatim>\<open>
  **Dice Notation Examples:**
  - `1d20` - Roll one 20-sided die
  - `2d6` - Roll two 6-sided dice
  - `4d6k3` - Roll four 6-sided dice, keep highest 3
  - `1d100` - Roll one 100-sided die (percentile)

  2. **"Invalid dice notation"**
     - Use format: `XdY` or `XdYkZ`
     - Examples: `1d20`, `2d6`, `4d6k3`
  \<close>
  The Python file itself is not among the sources. The definitions of this section
  follow the specification and the README; each says so.
\<close>

text \<open>
  Modelled from the spec: the errors of \<^verbatim>\<open>tool/dice_roller.py\<close>, which is missing.
  \<open>Invalid_dice_notation\<close> is the README's ``Invalid dice notation''. A draw from
  the interval \<open>[1, Y]\<close> does not exist when \<open>Y = 0\<close>: \<open>Empty_range\<close> stands for
  whatever the roller does then.
\<close>

datatype dice_error = Invalid_dice_notation | Empty_range

subsection \<open>The notation\<close>

text \<open>
  Modelled from the spec: the numbers \<open>X\<close>, \<open>Y\<close> and \<open>Z\<close> of the missing parser's
  notation are non-empty runs of decimal digits, read in base ten.
\<close>

definition is_digit :: "char \<Rightarrow> bool" where
  "is_digit c \<longleftrightarrow> c \<in> set ''0123456789''"

definition digit_value :: "char \<Rightarrow> nat" where
  "digit_value c = of_char c - 48"

definition int_of_digits :: "string \<Rightarrow> nat" where
  "int_of_digits ds = foldl (\<lambda>n c. 10 * n + digit_value c) 0 ds"

definition digits :: "string \<Rightarrow> bool" where
  "digits ds \<longleftrightarrow> ds \<noteq> [] \<and> list_all is_digit ds"

text \<open>
  Modelled from the spec: the two forms of a dice-notation string that the missing parser
  accepts, \<open>XdY\<close> and \<open>XdYkZ\<close>, as the specification and the README write them.
\<close>

definition is_XdY :: "string \<Rightarrow> bool" where
  "is_XdY s \<longleftrightarrow> (\<exists>xs ys. digits xs \<and> digits ys \<and> s = xs @ ''d'' @ ys)"

definition is_XdYkZ :: "string \<Rightarrow> bool" where
  "is_XdYkZ s \<longleftrightarrow>
     (\<exists>xs ys zs. digits xs \<and> digits ys \<and> digits zs \<and> s = xs @ ''d'' @ ys @ ''k'' @ zs)"

text \<open>
  Modelled from the spec: what a notation string of the missing parser denotes, the
  triple of the number of dice, the faces per die and the optional keep-highest count
  (the glossary's ``dice notation''). This is the grammar as a relation: nothing in its
  definition says that a string has one reading only.
\<close>

inductive notation_of :: "string \<Rightarrow> nat \<times> nat \<times> nat option \<Rightarrow> bool" where
  XdY: "digits xs \<Longrightarrow> digits ys \<Longrightarrow>
        notation_of (xs @ ''d'' @ ys) (int_of_digits xs, int_of_digits ys, None)"
| XdYkZ: "digits xs \<Longrightarrow> digits ys \<Longrightarrow> digits zs \<Longrightarrow>
        notation_of (xs @ ''d'' @ ys @ ''k'' @ zs)
          (int_of_digits xs, int_of_digits ys, Some (int_of_digits zs))"

subsection \<open>The parser\<close>

text \<open>
  Modelled from the spec: the parsing step of the missing \<^verbatim>\<open>tool/dice_roller.py\<close>, as a
  scan of the string from left to right. \<open>parse_number\<close> reads the longest run of
  digits at the front, which must not be empty, and returns its value and the rest.
\<close>

definition parse_number :: "string \<Rightarrow> dice_error + nat \<times> string" where
  "parse_number s =
     (let ds = takeWhile is_digit s in
      if ds = [] then Inl Invalid_dice_notation
      else Inr (int_of_digits ds, dropWhile is_digit s))"

text \<open>
  Modelled from the spec: the missing parser of the notation. A number, the letter
  \<open>d\<close>, a number, and then either the end of the string or the letter \<open>k\<close>, a
  number and the end of the string; anything else is the error ``Invalid dice notation''.
\<close>

definition parse_notation :: "string \<Rightarrow> dice_error + nat \<times> nat \<times> nat option" where
  "parse_notation s =
     (case parse_number s of
        Inl e \<Rightarrow> Inl e
      | Inr (x, r1) \<Rightarrow>
         (case r1 of
            [] \<Rightarrow> Inl Invalid_dice_notation
          | c # r2 \<Rightarrow>
              if c \<noteq> CHR ''d'' then Inl Invalid_dice_notation
              else
               (case parse_number r2 of
                  Inl e \<Rightarrow> Inl e
                | Inr (y, r3) \<Rightarrow>
                   (case r3 of
                      [] \<Rightarrow> Inr (x, y, None)
                    | c' # r4 \<Rightarrow>
                        if c' \<noteq> CHR ''k'' then Inl Invalid_dice_notation
                        else
                         (case parse_number r4 of
                            Inl e \<Rightarrow> Inl e
                          | Inr (z, r5) \<Rightarrow>
                              if r5 = [] then Inr (x, y, Some z)
                              else Inl Invalid_dice_notation)))))"

subsection \<open>Sampling and the roll\<close>

text \<open>
  Modelled from the spec: one draw of the missing roller, an integer in \<open>[1, Y]\<close>. The
  randomness is a parameter: \<open>r\<close> is the raw number that the random source delivers
  for this draw, and its residue modulo the number of faces chooses the face.
\<close>

definition draw :: "nat \<Rightarrow> nat \<Rightarrow> dice_error + nat" where
  "draw faces r = (if faces = 0 then Inl Empty_range else Inr (1 + r mod faces))"

text \<open>
  Modelled from the spec: the \<open>X\<close> draws of one roll of the missing roller. The random
  source \<open>rnd\<close> is the sequence of its raw numbers; the draws consume it in order.
\<close>

fun draws :: "nat \<Rightarrow> nat \<Rightarrow> (nat \<Rightarrow> nat) \<Rightarrow> dice_error + nat list" where
  "draws 0 faces rnd = Inr []"
| "draws (Suc n) faces rnd =
     (case draw faces (rnd 0) of
        Inl e \<Rightarrow> Inl e
      | Inr d \<Rightarrow>
         (case draws n faces (\<lambda>i. rnd (Suc i)) of
            Inl e \<Rightarrow> Inl e
          | Inr ds \<Rightarrow> Inr (d # ds)))"

text \<open>
  Modelled from the spec: the ``keep highest K'' modifier of the missing roller, computed
  by sorting the draws in descending order and taking the first \<open>k\<close> of them.
\<close>

definition keep_highest :: "nat \<Rightarrow> nat list \<Rightarrow> nat list" where
  "keep_highest k ds = take k (rev (sort ds))"

text \<open>
  Modelled from the spec: the sampling step of the missing roller, for a parsed notation:
  the sum of the draws, or of the kept ones.
\<close>

definition sample :: "nat \<times> nat \<times> nat option \<Rightarrow> (nat \<Rightarrow> nat) \<Rightarrow> dice_error + nat" where
  "sample t rnd =
     (case t of (n, faces, keep) \<Rightarrow>
        (case draws n faces rnd of
           Inl e \<Rightarrow> Inl e
         | Inr ds \<Rightarrow>
             Inr (sum_list (case keep of None \<Rightarrow> ds | Some k \<Rightarrow> keep_highest k ds))))"

text \<open>
  Modelled from the spec: one roll of the missing tool \<^verbatim>\<open>roll_dice\<close>, ``parse \<open>XdY\<close> or
  \<open>XdYkZ\<close>, roll, optionally keep top-K''. The README's tool also takes a number of
  rolls, which repeats this.
\<close>

definition roll_dice :: "string \<Rightarrow> (nat \<Rightarrow> nat) \<Rightarrow> dice_error + nat" where
  "roll_dice notation rnd =
     (case parse_notation notation of
        Inl e \<Rightarrow> Inl e
      | Inr t \<Rightarrow> sample t rnd)"

subsection \<open>What the specification says of a roll\<close>





text \<open>A random source for the examples: its raw numbers are 5, 12, 19, 26, ...\<close>

definition example_entropy :: "nat \<Rightarrow> nat" where
  "example_entropy i = 7 * i + 5"

section \<open>The HTTP mode of the MCP tool server (day\_8/mcp)\<close>

text \<open>
  The README's section ``HTTP API Endpoints'':
  \<^verbatim>\<open>
  # List available tools
  GET http://localhost:8000/tools

  # Generate a poem
  POST http://localhost:8000/tools/poet
  Content-Type: application/json
  { "arguments": { "theme": "your_theme_here" } }

  # Roll dice
  POST http://localhost:8000/tools/roll_dice
  Content-Type: application/json
  { "arguments": { "notation": "2d6", "num_rolls": 3 } }
  \<close>
  The server script \<^verbatim>\<open>mcp_server.py\<close> is not among the sources.
\<close>

text \<open>
  Modelled from the spec: the requests and responses of the missing server, as far as
  routing goes: the method and the path of a request, and a response that is the list of
  tool names, the result of a tool, or ``not found'' for a request that no route takes.
\<close>

type_synonym http_method = string

datatype 'r http_response = Tool_list "string list" | Tool_result 'r | Not_found

text \<open>
  Modelled from the spec: the tools registered with the missing server, in the order of
  their registration: the name of each tool and the function that computes its result
  from the \<open>arguments\<close> object of the request.
\<close>

type_synonym ('a, 'r) tool_registry = "(string \<times> ('a \<Rightarrow> 'r)) list"

text \<open>\<open>strip_prefix p s\<close> is the rest of \<open>s\<close> after its prefix \<open>p\<close>, if \<open>s\<close> starts with \<open>p\<close>.\<close>

fun strip_prefix :: "string \<Rightarrow> string \<Rightarrow> string option" where
  "strip_prefix [] s = Some s"
| "strip_prefix (p # ps) [] = None"
| "strip_prefix (p # ps) (c # cs) = (if p = c then strip_prefix ps cs else None)"

text \<open>
  Modelled from the spec: the routing of the missing \<^verbatim>\<open>mcp_server.py\<close> in HTTP mode,
  ``a local HTTP port with \<open>/tools\<close> and \<open>/tools/{name}\<close> routes''. \<open>GET /tools\<close>
  lists the tools, \<open>POST /tools/{name}\<close> calls the tool of that name on the arguments
  of the request; no other request is routed.
\<close>

definition http_server ::
  "('a, 'r) tool_registry \<Rightarrow> http_method \<Rightarrow> string \<Rightarrow> 'a \<Rightarrow> 'r http_response" where
  "http_server tools meth path arguments =
     (if meth = ''GET'' \<and> path = ''/tools'' then Tool_list (map fst tools)
      else if meth = ''POST'' then
        (case strip_prefix ''/tools/'' path of
           None \<Rightarrow> Not_found
         | Some name \<Rightarrow>
            (case map_of tools name of
               None \<Rightarrow> Not_found
             | Some tool \<Rightarrow> Tool_result (tool arguments)))
      else Not_found)"

text \<open>A registry for the examples, with the README's two tool names.\<close>

definition example_tools :: "(string, string) tool_registry" where
  "example_tools =
     [(''poet'', \<lambda>theme. ''A poem about '' @ theme),
      (''roll_dice'', \<lambda>notation. ''Rolled '' @ notation)]"

section \<open>Properties of the chat helpers\<close>

text \<open>
  C2. For every string \<open>m\<close>, each of \<open>system_prompt\<close>, \<open>assistant_prompt\<close> and
  \<open>user_prompt\<close> returns a dict whose keys are exactly \<open>role\<close> and \<open>content\<close>, and
  whose \<open>content\<close> is \<open>m\<close> unchanged.
\<close>

theorem prompt_wrappers_keys:
  "dom (system_prompt m) = {''role'', ''content''} \<and> system_prompt m ''content'' = Some m \<and>
   dom (assistant_prompt m) = {''role'', ''content''} \<and> assistant_prompt m ''content'' = Some m \<and>
   dom (user_prompt m) = {''role'', ''content''} \<and> user_prompt m ''content'' = Some m"
  by (auto simp: system_prompt_def assistant_prompt_def user_prompt_def)

text \<open>
  C8. For every string \<open>m\<close>, the \<open>role\<close> of \<open>system_prompt m\<close> is the string
  \<open>developer\<close>, which is not the string \<open>system\<close>.
\<close>

theorem system_prompt_role_developer:
  "system_prompt m ''role'' = Some ''developer'' \<and> system_prompt m ''role'' \<noteq> Some ''system''"
  by (simp add: system_prompt_def)

text \<open>
  C3. For every client, message list and model name, \<open>get_response\<close> sends the hosted
  API exactly one request, made of the model name and of the message list as it was given
  (same elements, same order), and returns the API's answer to that request as it is.
\<close>

theorem get_response_verbatim:
  "get_response client msgs (Some m) =
     (respond client \<lparr>model = m, messages = msgs\<rparr>,
      client\<lparr>sent := sent client @ [\<lparr>model = m, messages = msgs\<rparr>]\<rparr>)"
  by (simp add: get_response_def chat_completions_create_def)

text \<open>
  C10. For every client and message list, a call of \<open>get_response\<close> without a model
  argument sends a request whose model name is \<open>gpt-4.1-nano\<close>.
\<close>

theorem get_response_default_model:
  "get_response client msgs None =
     (respond client \<lparr>model = ''gpt-4.1-nano'', messages = msgs\<rparr>,
      client\<lparr>sent := sent client @ [\<lparr>model = ''gpt-4.1-nano'', messages = msgs\<rparr>]\<rparr>) \<and>
   model (last (sent (snd (get_response client msgs None)))) = ''gpt-4.1-nano''"
  by (simp add: get_response_def chat_completions_create_def)




text \<open>
  C9. For every response object, the value that \<open>pretty_print\<close> returns is \<open>None\<close>:
  a caller that receives a value from it receives \<open>None\<close>, never a string, despite the
  annotation \<open>-> str\<close>. It returns exactly when \<open>choices[0]\<close> exists and the
  constructor \<open>Markdown(...)\<close> succeeds; the result of \<open>display\<close> is not returned.
\<close>

theorem pretty_print_returns_None:
  "(fst (pretty_print env response out) = Inr v \<longrightarrow> v = PyNone) \<and>
   (fst (pretty_print env response out) = Inr PyNone \<longleftrightarrow>
      choices response \<noteq> [] \<and>
      (\<exists>obj. Markdown env (content (message (choices response ! 0))) = Inr obj))"
  by (cases "choices response") (auto simp: pretty_print_def split: sum.splits)

theorem pretty_print_returns_None_witness:
  "fst (pretty_print example_env (response_with (Some ''text'')) []) = Inr PyNone \<and>
   fst (pretty_print example_env (response_with None) []) = Inr PyNone"
proof -
  have "Markdown example_env (Some ''text'') = Inr (Markdown_object (Some ''text''))"
    by (simp add: Markdown_def startswith_def example_env_def)
  moreover have "Markdown example_env None = Inr (Markdown_object None)"
    by (simp add: Markdown_def)
  ultimately show ?thesis
    using pretty_print_returns_None [of example_env "response_with (Some ''text'')" "[]" PyNone]
      pretty_print_returns_None [of example_env "response_with None" "[]" PyNone]
    by (simp add: response_with_def)
qed

section \<open>Properties of the dice roller\<close>

subsection \<open>The parser decides the grammar\<close>

lemma not_digit_d: "\<not> is_digit CHR ''d''" and not_digit_k: "\<not> is_digit CHR ''k''"
  by (simp_all add: is_digit_def)

lemma digits_iff: "digits ds \<longleftrightarrow> ds \<noteq> [] \<and> (\<forall>c\<in>set ds. is_digit c)"
  by (simp add: digits_def list_all_iff)

lemma parse_number_stop:
  assumes "digits ds" "\<not> is_digit c"
  shows "parse_number (ds @ c # r) = Inr (int_of_digits ds, c # r)"
proof -
  from assms(1) have ne: "ds \<noteq> []" and d: "\<forall>c\<in>set ds. is_digit c"
    by (simp_all add: digits_iff)
  have "takeWhile is_digit (ds @ c # r) = ds"
    using d assms(2) by (simp add: takeWhile_tail)
  moreover have "dropWhile is_digit (ds @ c # r) = c # r"
    using d assms(2) by (simp add: dropWhile_append3)
  ultimately show ?thesis
    using ne by (simp add: parse_number_def)
qed

lemma parse_number_all:
  assumes "digits ds"
  shows "parse_number ds = Inr (int_of_digits ds, [])"
proof -
  from assms have ne: "ds \<noteq> []" and d: "\<forall>c\<in>set ds. is_digit c"
    by (simp_all add: digits_iff)
  have a: "takeWhile is_digit ds = ds" "dropWhile is_digit ds = []"
    using d by simp_all
  show ?thesis
    by (simp add: parse_number_def a ne)
qed

lemma parse_numberD:
  assumes "parse_number s = Inr (n, r)"
  shows "\<exists>ds. digits ds \<and> s = ds @ r \<and> n = int_of_digits ds"
proof -
  let ?ds = "takeWhile is_digit s"
  from assms have ne: "?ds \<noteq> []" and n: "n = int_of_digits ?ds" and r: "r = dropWhile is_digit s"
    by (auto simp: parse_number_def Let_def split: if_splits)
  have "\<forall>c\<in>set ?ds. is_digit c"
    by (auto dest: set_takeWhileD)
  with ne have "digits ?ds"
    by (simp add: digits_iff)
  moreover have "s = ?ds @ r"
    using r by simp
  ultimately show ?thesis
    using n by blast
qed

lemma parse_number_error:
  "parse_number s = Inl e \<longleftrightarrow> e = Invalid_dice_notation \<and> takeWhile is_digit s = []"
  by (auto simp: parse_number_def Let_def split: if_splits)

lemma parse_XdY:
  assumes "digits xs" "digits ys"
  shows "parse_notation (xs @ ''d'' @ ys) = Inr (int_of_digits xs, int_of_digits ys, None)"
proof -
  have "parse_number (xs @ CHR ''d'' # ys) = Inr (int_of_digits xs, CHR ''d'' # ys)"
    using assms(1) not_digit_d by (rule parse_number_stop)
  moreover have "parse_number ys = Inr (int_of_digits ys, [])"
    using assms(2) by (rule parse_number_all)
  ultimately show ?thesis
    by (simp add: parse_notation_def)
qed

lemma parse_XdYkZ:
  assumes "digits xs" "digits ys" "digits zs"
  shows "parse_notation (xs @ ''d'' @ ys @ ''k'' @ zs) =
           Inr (int_of_digits xs, int_of_digits ys, Some (int_of_digits zs))"
proof -
  have "parse_number (xs @ CHR ''d'' # ys @ CHR ''k'' # zs) =
          Inr (int_of_digits xs, CHR ''d'' # ys @ CHR ''k'' # zs)"
    using assms(1) not_digit_d by (rule parse_number_stop)
  moreover have "parse_number (ys @ CHR ''k'' # zs) = Inr (int_of_digits ys, CHR ''k'' # zs)"
    using assms(2) not_digit_k by (rule parse_number_stop)
  moreover have "parse_number zs = Inr (int_of_digits zs, [])"
    using assms(3) by (rule parse_number_all)
  ultimately show ?thesis
    by (simp add: parse_notation_def)
qed

lemma parse_complete: "notation_of s t \<Longrightarrow> parse_notation s = Inr t"
  by (induction rule: notation_of.induct) (simp_all only: parse_XdY parse_XdYkZ)

lemma parse_sound:
  assumes "parse_notation s = Inr t"
  shows "notation_of s t"
proof -
  from assms obtain x r2 where 1: "parse_number s = Inr (x, CHR ''d'' # r2)"
    by (auto simp: parse_notation_def split: sum.splits list.splits if_splits)
  from assms 1 obtain y r3 where 2: "parse_number r2 = Inr (y, r3)"
    by (auto simp: parse_notation_def split: sum.splits)
  from parse_numberD [OF 1] obtain xs
    where xs: "digits xs" "s = xs @ CHR ''d'' # r2" "x = int_of_digits xs" by blast
  from parse_numberD [OF 2] obtain ys
    where ys: "digits ys" "r2 = ys @ r3" "y = int_of_digits ys" by blast
  show ?thesis
  proof (cases r3)
    case Nil
    with assms 1 2 have "t = (x, y, None)"
      by (simp add: parse_notation_def)
    moreover have "s = xs @ ''d'' @ ys"
      using xs(2) ys(2) Nil by simp
    ultimately show ?thesis
      using notation_of.XdY [OF xs(1) ys(1)] xs(3) ys(3) by simp
  next
    case (Cons c' r4)
    with assms 1 2 have k: "c' = CHR ''k''"
      by (auto simp: parse_notation_def split: if_splits)
    with assms 1 2 Cons obtain z where 3: "parse_number r4 = Inr (z, [])" and t: "t = (x, y, Some z)"
      by (auto simp: parse_notation_def split: sum.splits if_splits)
    from parse_numberD [OF 3] obtain zs
      where zs: "digits zs" "r4 = zs" "z = int_of_digits zs" by auto
    have "s = xs @ ''d'' @ ys @ ''k'' @ zs"
      using xs(2) ys(2) Cons k zs(2) by simp
    then show ?thesis
      using notation_of.XdYkZ [OF xs(1) ys(1) zs(1)] t xs(3) ys(3) zs(3) by simp
  qed
qed

lemma parse_notation_iff: "parse_notation s = Inr t \<longleftrightarrow> notation_of s t"
  using parse_sound parse_complete by blast

lemma parse_error_invalid: "parse_notation s = Inl e \<Longrightarrow> e = Invalid_dice_notation"
  by (auto simp: parse_notation_def parse_number_error split: sum.splits list.splits if_splits)

subsection \<open>Draws and the highest of them\<close>


lemma draws_error: "draws n faces rnd = Inl e \<Longrightarrow> e = Empty_range"
  by (induction n arbitrary: rnd) (auto simp: draw_def split: if_splits sum.splits)


lemma dice_notation_forms: "is_XdY s \<or> is_XdYkZ s \<longleftrightarrow> (\<exists>t. notation_of s t)"
  unfolding is_XdY_def is_XdYkZ_def by (subst notation_of.simps) blast

subsection \<open>The claims about the roll\<close>

text \<open>
  Among the raw numbers below the number of faces, each face is drawn by exactly one: a
  random source that is uniform on them draws uniformly from \<open>[1, Y]\<close>.
\<close>

lemma draw_each_face_once:
  assumes "0 < faces" "1 \<le> f" "f \<le> faces"
  shows "{r. r < faces \<and> draw faces r = Inr f} = {f - 1}"
  using assms by (auto simp: draw_def)



lemma sample_error: "sample t rnd = Inl e \<Longrightarrow> e = Empty_range"
  by (auto simp: sample_def dest: draws_error split: prod.splits sum.splits)




lemma digits_4: "digits ''4''" and digits_6: "digits ''6''" and digits_3: "digits ''3''"
  by (simp_all add: digits_def is_digit_def)






lemma dice_notation_parse: "is_XdY s \<or> is_XdYkZ s \<longleftrightarrow> (\<exists>t. parse_notation s = Inr t)"
  by (simp add: dice_notation_forms parse_notation_iff)

text \<open>
  C5. For every string that is not of the form \<open>XdY\<close> or \<open>XdYkZ\<close>, the roll fails
  with the error ``Invalid dice notation'' and returns no result; for every string of one
  of these forms it does not raise that error, whatever the random source.
\<close>

theorem invalid_dice_notation:
  "(\<not> (is_XdY s \<or> is_XdYkZ s) \<longrightarrow> roll_dice s rnd = Inl Invalid_dice_notation) \<and>
   (is_XdY s \<or> is_XdYkZ s \<longrightarrow> roll_dice s rnd \<noteq> Inl Invalid_dice_notation)"
proof (cases "parse_notation s")
  case (Inl e)
  then have "e = Invalid_dice_notation"
    by (rule parse_error_invalid)
  with Inl show ?thesis
    by (simp add: dice_notation_parse roll_dice_def)
next
  case (Inr t)
  have "sample t rnd \<noteq> Inl Invalid_dice_notation"
    using sample_error [of t rnd Invalid_dice_notation] by auto
  then have "roll_dice s rnd \<noteq> Inl Invalid_dice_notation"
    using Inr by (simp add: roll_dice_def)
  moreover have "is_XdY s \<or> is_XdYkZ s"
    unfolding dice_notation_parse using Inr by blast
  ultimately show ?thesis
    by blast
qed

lemma parse_2d6x: "parse_notation ''2d6x'' = Inl Invalid_dice_notation"
  by (simp add: parse_notation_def parse_number_def is_digit_def)

lemma is_XdYkZ_4d6k3: "is_XdYkZ ''4d6k3''"
  unfolding is_XdYkZ_def using digits_4 digits_6 digits_3
  by (intro exI [of _ "''4''"] exI [of _ "''6''"] exI [of _ "''3''"]) simp

theorem invalid_dice_notation_witness:
  "\<not> (is_XdY ''2d6x'' \<or> is_XdYkZ ''2d6x'') \<and>
   roll_dice ''2d6x'' example_entropy = Inl Invalid_dice_notation \<and>
   (is_XdY ''4d6k3'' \<or> is_XdYkZ ''4d6k3'') \<and>
   roll_dice ''4d6k3'' example_entropy \<noteq> Inl Invalid_dice_notation"
proof -
  have bad: "\<not> (is_XdY ''2d6x'' \<or> is_XdYkZ ''2d6x'')"
    by (simp only: dice_notation_parse parse_2d6x) simp
  have good: "is_XdY ''4d6k3'' \<or> is_XdYkZ ''4d6k3''"
    using is_XdYkZ_4d6k3 by simp
  from bad good invalid_dice_notation [of "''2d6x''" example_entropy]
    invalid_dice_notation [of "''4d6k3''" example_entropy]
  show ?thesis
    by blast
qed

section \<open>Properties of the HTTP routes\<close>

lemma strip_prefix_iff: "strip_prefix p s = Some r \<longleftrightarrow> s = p @ r"
  by (induction p s rule: strip_prefix.induct) auto

lemma map_of_registered: "(\<exists>tool. map_of tools name = Some tool) \<longleftrightarrow> name \<in> fst ` set tools"
  by (metis domIff dom_map_of_conv_image_fst not_Some_eq)

lemma http_server_POST:
  "http_server tools ''POST'' p arguments \<noteq> Not_found \<longleftrightarrow>
     (\<exists>name. name \<in> fst ` set tools \<and> p = ''/tools/'' @ name)"
proof (cases "strip_prefix ''/tools/'' p")
  case None
  then have "\<And>name. p \<noteq> ''/tools/'' @ name"
    using strip_prefix_iff [of "''/tools/''" p] by auto
  with None show ?thesis
    by (simp add: http_server_def)
next
  case (Some name)
  then have p: "p = ''/tools/'' @ name"
    by (simp only: strip_prefix_iff)
  have "http_server tools ''POST'' p arguments \<noteq> Not_found \<longleftrightarrow>
      (\<exists>tool. map_of tools name = Some tool)"
    using Some by (simp add: http_server_def split: option.splits)
  also have "\<dots> \<longleftrightarrow> name \<in> fst ` set tools"
    by (rule map_of_registered)
  finally show ?thesis
    using p by auto
qed

text \<open>
  C6. In HTTP mode the server answers exactly two kinds of request: \<open>GET /tools\<close>,
  which lists the registered tools, and \<open>POST /tools/{name}\<close> for a registered tool
  name, which calls that tool on the arguments of the request. This holds for every
  registry and every registered name.
\<close>

theorem http_routes:
  "(http_server tools meth path arguments \<noteq> Not_found \<longleftrightarrow>
      meth = ''GET'' \<and> path = ''/tools'' \<or>
      meth = ''POST'' \<and> (\<exists>name. name \<in> fst ` set tools \<and> path = ''/tools/'' @ name)) \<and>
   http_server tools ''GET'' ''/tools'' arguments = Tool_list (map fst tools) \<and>
   (\<forall>name tool. map_of tools name = Some tool \<longrightarrow>
      http_server tools ''POST'' (''/tools/'' @ name) arguments = Tool_result (tool arguments))"
proof -
  have 1: "http_server tools meth path arguments \<noteq> Not_found \<longleftrightarrow>
      meth = ''GET'' \<and> path = ''/tools'' \<or>
      meth = ''POST'' \<and> (\<exists>name. name \<in> fst ` set tools \<and> path = ''/tools/'' @ name)"
  proof (cases "meth = ''POST''")
    case True
    then show ?thesis
      using http_server_POST [of tools path arguments] by simp
  next
    case False
    then show ?thesis
      by (simp add: http_server_def)
  qed
  have 2: "http_server tools ''GET'' ''/tools'' arguments = Tool_list (map fst tools)"
    by (simp add: http_server_def)
  have 3: "http_server tools ''POST'' (''/tools/'' @ name) arguments = Tool_result (tool arguments)"
    if "map_of tools name = Some tool" for name tool
  proof -
    have "strip_prefix ''/tools/'' (''/tools/'' @ name) = Some name"
      by (simp only: strip_prefix_iff)
    with that show ?thesis
      by (simp add: http_server_def)
  qed
  from 1 2 3 show ?thesis
    by blast
qed

theorem http_routes_witness:
  "map_of example_tools ''poet'' = Some (\<lambda>theme. ''A poem about '' @ theme) \<and>
   http_server example_tools ''POST'' ''/tools/poet'' ''coding'' = Tool_result ''A poem about coding'' \<and>
   http_server example_tools ''GET'' ''/tools'' ''coding'' = Tool_list [''poet'', ''roll_dice''] \<and>
   http_server example_tools ''GET'' ''/tools/poet'' ''coding'' = Not_found \<and>
   http_server example_tools ''DELETE'' ''/tools'' ''coding'' = Not_found"
proof -
  have m: "map_of example_tools ''poet'' = Some (\<lambda>theme. ''A poem about '' @ theme)"
    by (simp add: example_tools_def)
  have a: "http_server example_tools ''GET'' ''/tools/poet'' ''coding'' = Not_found"
    using http_routes [of example_tools "''GET''" "''/tools/poet''" "''coding''"] by simp
  have b: "http_server example_tools ''DELETE'' ''/tools'' ''coding'' = Not_found"
    using http_routes [of example_tools "''DELETE''" "''/tools''" "''coding''"] by simp
  have c: "http_server example_tools ''POST'' ''/tools/poet'' ''coding'' =
      Tool_result ''A poem about coding''"
    using http_routes [of example_tools "''POST''" "''/tools/poet''" "''coding''"] m by auto
  have d: "http_server example_tools ''GET'' ''/tools'' ''coding'' =
      Tool_list [''poet'', ''roll_dice'']"
    using http_routes [of example_tools "''GET''" "''/tools''" "''coding''"]
    by (simp add: example_tools_def)
  from m a b c d show ?thesis
    by simp
qed

end
